theory Spec2Isabelle
  imports Main
begin

section \<open>The authentication store (store/authStore.ts)\<close>

text \<open>
  The store holds four data fields and four actions. Every action changes the fields
  only through Zustand's \<open>set\<close>, which merges the given fields into the current state;
  a call \<open>set({ a: x, b: y })\<close> is the record update \<open>s\<lparr>a := x, b := y\<rparr>\<close>.

  Strings are lists of characters. The two Spanish messages of the source contain the
  letters U+00E1, U+00F1 and U+00F3, which are written by their code (\<open>CHR 0xF3\<close>).
\<close>

subsection \<open>Data\<close>

text \<open>
  \<open>interface User\<close> of types/index.ts. The field \<open>id\<close> is named \<open>user_id\<close> here.
  The declared type of \<open>role\<close> is \<open>'admin' | 'user'\<close>, but \<open>login\<close> stores whatever
  truthy value the provider's metadata (of type \<open>any\<close>) carries, so it is a string.
\<close>

record User =
  user_id :: string
  username :: string
  email :: string
  role :: string

text \<open>The data fields of \<open>interface AuthState\<close>; \<open>null\<close> is \<open>None\<close>.\<close>

record AuthState =
  user :: "User option"
  isAuthenticated :: bool
  isLoading :: bool
  error :: "string option"

text \<open>The initial state (lines 21 to 24).\<close>

definition initial_state :: AuthState where
  "initial_state = \<lparr>user = None, isAuthenticated = False, isLoading = False, error = None\<rparr>"

subsection \<open>The Supabase client, as the store sees it\<close>

text \<open>
  The client is an external library. The store awaits four of its promises and reads
  a few fields of what they resolve to. A value that is thrown, or with which a promise
  rejects, is an error object with a \<open>message\<close> (the source casts it to \<open>Error\<close>).
\<close>

datatype js_error = JsError (message: string)

datatype 'a promise = Resolved 'a | Rejected js_error

text \<open>
  \<open>data.user\<close>: the fields the store reads. A metadata entry is absent (\<open>None\<close>) or a
  string; \<open>email\<close> is read under a non-null assertion.
\<close>

record UserMetadata =
  md_username :: "string option"
  md_role :: "string option"

record SupabaseUser =
  sb_id :: string
  sb_email :: string
  user_metadata :: UserMetadata

text \<open>The \<open>{ data, error }\<close> of \<open>signInWithPassword\<close> and \<open>signUp\<close>.\<close>

record AuthResponse =
  data_user :: "SupabaseUser option"
  resp_error :: "js_error option"

text \<open>
  The result of \<open>from('users').select('email').eq('email', email).single()\<close>: the row's
  email or \<open>null\<close>, and an error which the store never reads.
\<close>

record QueryResponse =
  q_data :: "string option"
  q_error :: "js_error option"

text \<open>The \<open>{ error }\<close> of \<open>signOut\<close>.\<close>

record SignOutResponse =
  so_error :: "js_error option"

text \<open>
  What the client answers is not determined by the store, so it is a parameter: one
  function per capability, from the arguments of the call to the outcome of the promise.
  \<open>signUp\<close> takes the email, the password and the two entries of \<open>options.data\<close>.
\<close>

record supabase =
  signInWithPassword :: "string \<Rightarrow> string \<Rightarrow> AuthResponse promise"
  users_single :: "string \<Rightarrow> QueryResponse promise"
  signUp :: "string \<Rightarrow> string \<Rightarrow> string \<Rightarrow> string \<Rightarrow> AuthResponse promise"
  signOut :: "SignOutResponse promise"

text \<open>The calls an action made on the client, in order.\<close>

datatype call =
    SignInWithPassword string string
  | UsersSingle string
  | is_SignUp: SignUp string string string string
  | SignOut

subsection \<open>JavaScript's \<open>||\<close> on an optional string\<close>

text \<open>
  \<open>a || b\<close> is \<open>a\<close> when \<open>a\<close> is truthy and \<open>b\<close> otherwise; \<open>undefined\<close> and the
  empty string are falsy.
\<close>

fun or_else :: "string option \<Rightarrow> string \<Rightarrow> string" where
  "or_else None b = b"
| "or_else (Some a) b = (if a = [] then b else a)"

subsection \<open>login (lines 27 to 60)\<close>

definition LOGIN_ERROR :: string where
  "LOGIN_ERROR = ''Email o contrase'' @ [CHR 0xF1] @ ''a inv'' @ [CHR 0xE1]
     @ ''lidos. Por favor intente nuevamente.''"

text \<open>
  The body of \<open>try\<close>, run on the state \<open>s\<close> left by the first \<open>set\<close>: \<open>Inl\<close> is a
  thrown error, \<open>Inr\<close> the state when the block ends normally. Nothing is set before a
  throw, so a thrown error carries no state.
\<close>

definition login_try :: "supabase \<Rightarrow> string \<Rightarrow> string \<Rightarrow> AuthState \<Rightarrow> js_error + AuthState" where
  "login_try sb em password s =
     (case signInWithPassword sb em password of
        Rejected e \<Rightarrow> Inl e
      | Resolved r \<Rightarrow>
          (case resp_error r of
             Some e \<Rightarrow> Inl e
           | None \<Rightarrow>
               (case data_user r of
                  None \<Rightarrow> Inr s
                | Some u \<Rightarrow>
                    Inr (s\<lparr>user := Some \<lparr>user_id = sb_id u,
                                          username = or_else (md_username (user_metadata u)) (sb_email u),
                                          email = sb_email u,
                                          role = or_else (md_role (user_metadata u)) ''user''\<rparr>,
                           isAuthenticated := True, isLoading := False, error := None\<rparr>))))"

definition login :: "supabase \<Rightarrow> string \<Rightarrow> string \<Rightarrow> AuthState \<Rightarrow> AuthState \<times> call list" where
  "login sb em password s0 =
     (let s1 = s0\<lparr>isLoading := True, error := None\<rparr> in
      ((case login_try sb em password s1 of
          Inr s2 \<Rightarrow> s2
        | Inl e \<Rightarrow> s1\<lparr>error := Some LOGIN_ERROR, isLoading := False,
                       isAuthenticated := False, user := None\<rparr>),
       [SignInWithPassword em password]))"

subsection \<open>register (lines 63 to 113)\<close>

definition DUPLICATE_ERROR :: string where
  "DUPLICATE_ERROR = ''Ya existe una cuenta con este email. Por favor inicie sesi''
     @ [CHR 0xF3] @ ''n.''"

text \<open>The body of \<open>try\<close>, with the calls it made up to the throw or to its end.\<close>

definition register_try ::
  "supabase \<Rightarrow> string \<Rightarrow> string \<Rightarrow> string \<Rightarrow> AuthState \<Rightarrow> (js_error + AuthState) \<times> call list" where
  "register_try sb uname em password s =
     (case users_single sb em of
        Rejected e \<Rightarrow> (Inl e, [UsersSingle em])
      | Resolved q \<Rightarrow>
          (case q_data q of
             Some existingUser \<Rightarrow> (Inl (JsError DUPLICATE_ERROR), [UsersSingle em])
           | None \<Rightarrow>
               (let calls = [UsersSingle em, SignUp em password uname ''user''] in
                (case signUp sb em password uname ''user'' of
                   Rejected e \<Rightarrow> (Inl e, calls)
                 | Resolved r \<Rightarrow>
                     (case resp_error r of
                        Some e \<Rightarrow> (Inl e, calls)
                      | None \<Rightarrow>
                          (case data_user r of
                             None \<Rightarrow> (Inr s, calls)
                           | Some u \<Rightarrow>
                               (Inr (s\<lparr>user := Some \<lparr>user_id = sb_id u, username = uname,
                                                      email = sb_email u, role = ''user''\<rparr>,
                                       isAuthenticated := True, isLoading := False,
                                       error := None\<rparr>),
                                calls)))))))"

definition register ::
  "supabase \<Rightarrow> string \<Rightarrow> string \<Rightarrow> string \<Rightarrow> AuthState \<Rightarrow> AuthState \<times> call list" where
  "register sb uname em password s0 =
     (let s1 = s0\<lparr>isLoading := True, error := None\<rparr> in
      (case register_try sb uname em password s1 of
         (Inr s2, calls) \<Rightarrow> (s2, calls)
       | (Inl e, calls) \<Rightarrow>
           (s1\<lparr>error := Some (message e), isLoading := False,
                isAuthenticated := False, user := None\<rparr>, calls)))"

subsection \<open>logout (lines 116 to 127)\<close>

definition logout_try :: "supabase \<Rightarrow> AuthState \<Rightarrow> js_error + AuthState" where
  "logout_try sb s =
     (case signOut sb of
        Rejected e \<Rightarrow> Inl e
      | Resolved r \<Rightarrow>
          (case so_error r of
             Some e \<Rightarrow> Inl e
           | None \<Rightarrow> Inr (s\<lparr>user := None, isAuthenticated := False, error := None\<rparr>)))"

definition logout :: "supabase \<Rightarrow> AuthState \<Rightarrow> AuthState \<times> call list" where
  "logout sb s =
     ((case logout_try sb s of
         Inr s1 \<Rightarrow> s1
       | Inl e \<Rightarrow> s\<lparr>error := Some (message e)\<rparr>),
      [SignOut])"

subsection \<open>clearError (line 130)\<close>

definition clearError :: "AuthState \<Rightarrow> AuthState" where
  "clearError s = s\<lparr>error := None\<rparr>"

subsection \<open>States reached by completed actions\<close>

text \<open>
  The states the store can be in between actions when each action runs to its end
  before the next one starts, whatever the client answers.
\<close>

inductive reachable :: "AuthState \<Rightarrow> bool" where
  r_init: "reachable initial_state"
| r_login: "reachable s \<Longrightarrow> reachable (fst (login sb em password s))"
| r_register: "reachable s \<Longrightarrow> reachable (fst (register sb uname em password s))"
| r_logout: "reachable s \<Longrightarrow> reachable (fst (logout sb s))"
| r_clearError: "reachable s \<Longrightarrow> reachable (clearError s)"

text \<open>The two session fields agree: authenticated exactly when a user is set.\<close>

definition consistent :: "AuthState \<Rightarrow> bool" where
  "consistent s = (isAuthenticated s = (user s \<noteq> None))"

subsection \<open>Example clients\<close>

definition ana :: SupabaseUser where
  "ana = \<lparr>sb_id = ''1'', sb_email = ''a@b.com'',
          user_metadata = \<lparr>md_username = Some ''ana'', md_role = None\<rparr>\<rparr>"

definition no_name :: SupabaseUser where
  "no_name = \<lparr>sb_id = ''2'', sb_email = ''c@d.com'',
              user_metadata = \<lparr>md_username = None, md_role = Some ''admin''\<rparr>\<rparr>"

definition blank_name :: SupabaseUser where
  "blank_name = \<lparr>sb_id = ''3'', sb_email = ''e@f.com'',
                 user_metadata = \<lparr>md_username = Some [], md_role = None\<rparr>\<rparr>"

text \<open>A client that accepts every call and knows no account beforehand.\<close>

definition accepting :: "SupabaseUser \<Rightarrow> supabase" where
  "accepting u =
     \<lparr>signInWithPassword = (\<lambda>em pw. Resolved \<lparr>data_user = Some u, resp_error = None\<rparr>),
      users_single = (\<lambda>em. Resolved \<lparr>q_data = None, q_error = Some (JsError ''PGRST116'')\<rparr>),
      signUp = (\<lambda>em pw un rl. Resolved \<lparr>data_user = Some u, resp_error = None\<rparr>),
      signOut = Resolved \<lparr>so_error = None\<rparr>\<rparr>"

text \<open>A client that answers every call with an error, and finds the account.\<close>

definition refusing :: supabase where
  "refusing =
     \<lparr>signInWithPassword =
        (\<lambda>em pw. Resolved \<lparr>data_user = None,
                            resp_error = Some (JsError ''Invalid login credentials'')\<rparr>),
      users_single = (\<lambda>em. Resolved \<lparr>q_data = Some em, q_error = None\<rparr>),
      signUp = (\<lambda>em pw un rl. Resolved \<lparr>data_user = None,
                                          resp_error = Some (JsError ''User already registered'')\<rparr>),
      signOut = Resolved \<lparr>so_error = Some (JsError ''Failed to fetch'')\<rparr>\<rparr>"

text \<open>A client whose sign-in and sign-up succeed without a user record.\<close>

definition empty_handed :: supabase where
  "empty_handed =
     \<lparr>signInWithPassword = (\<lambda>em pw. Resolved \<lparr>data_user = None, resp_error = None\<rparr>),
      users_single = (\<lambda>em. Resolved \<lparr>q_data = None, q_error = None\<rparr>),
      signUp = (\<lambda>em pw un rl. Resolved \<lparr>data_user = None, resp_error = None\<rparr>),
      signOut = Resolved \<lparr>so_error = None\<rparr>\<rparr>"

definition logged_in :: AuthState where
  "logged_in =
     \<lparr>user = Some \<lparr>user_id = ''1'', username = ''ana'', email = ''a@b.com'', role = ''user''\<rparr>,
      isAuthenticated = True, isLoading = False, error = None\<rparr>"

section \<open>Properties\<close>

subsection \<open>What each action does on each outcome\<close>

lemma login_on_user:
  assumes "signInWithPassword sb em password = Resolved r"
    and "resp_error r = None" and "data_user r = Some u"
  shows "fst (login sb em password s) =
     \<lparr>user = Some \<lparr>user_id = sb_id u,
                    username = or_else (md_username (user_metadata u)) (sb_email u),
                    email = sb_email u,
                    role = or_else (md_role (user_metadata u)) ''user''\<rparr>,
      isAuthenticated = True, isLoading = False, error = None\<rparr>"
  using assms by (simp add: login_def login_try_def)

lemma login_on_throw:
  assumes "signInWithPassword sb em password = Rejected e
     \<or> (signInWithPassword sb em password = Resolved r \<and> resp_error r = Some e)"
  shows "fst (login sb em password s) =
     \<lparr>user = None, isAuthenticated = False, isLoading = False, error = Some LOGIN_ERROR\<rparr>"
  using assms by (auto simp: login_def login_try_def)

lemma login_on_null:
  assumes "signInWithPassword sb em password = Resolved r"
    and "resp_error r = None" and "data_user r = None"
  shows "fst (login sb em password s) = s\<lparr>isLoading := True, error := None\<rparr>"
  using assms by (simp add: login_def login_try_def)

lemma login_calls: "snd (login sb em password s) = [SignInWithPassword em password]"
  by (simp add: login_def Let_def)

lemma register_on_existing:
  assumes "users_single sb em = Resolved q" and "q_data q = Some row"
  shows "register sb uname em password s =
     (\<lparr>user = None, isAuthenticated = False, isLoading = False,
        error = Some DUPLICATE_ERROR\<rparr>, [UsersSingle em])"
  using assms by (simp add: register_def register_try_def)

lemma register_on_user:
  assumes "users_single sb em = Resolved q" and "q_data q = None"
    and "signUp sb em password uname ''user'' = Resolved r"
    and "resp_error r = None" and "data_user r = Some u"
  shows "register sb uname em password s =
     (\<lparr>user = Some \<lparr>user_id = sb_id u, username = uname, email = sb_email u,
                     role = ''user''\<rparr>,
        isAuthenticated = True, isLoading = False, error = None\<rparr>,
      [UsersSingle em, SignUp em password uname ''user''])"
  using assms by (simp add: register_def register_try_def)

lemma logout_on_success:
  assumes "signOut sb = Resolved r" and "so_error r = None"
  shows "fst (logout sb s) = s\<lparr>user := None, isAuthenticated := False, error := None\<rparr>"
  using assms by (simp add: logout_def logout_try_def)

lemma logout_on_throw:
  assumes "signOut sb = Rejected e \<or> (signOut sb = Resolved r \<and> so_error r = Some e)"
  shows "fst (logout sb s) = s\<lparr>error := Some (message e)\<rparr>"
  using assms by (auto simp: logout_def logout_try_def)

subsection \<open>The two session fields agree after every action\<close>

lemma consistent_initial: "consistent initial_state"
  by (simp add: consistent_def initial_state_def)

lemma consistent_login: "consistent s \<Longrightarrow> consistent (fst (login sb em password s))"
  by (auto simp: consistent_def login_def login_try_def Let_def split: promise.splits option.splits)

lemma consistent_register:
  "consistent s \<Longrightarrow> consistent (fst (register sb uname em password s))"
  by (auto simp: consistent_def register_def register_try_def Let_def
           split: promise.splits option.splits)

lemma consistent_logout: "consistent s \<Longrightarrow> consistent (fst (logout sb s))"
  by (auto simp: consistent_def logout_def logout_try_def split: promise.splits option.splits)

lemma consistent_clearError: "consistent s \<Longrightarrow> consistent (clearError s)"
  by (simp add: consistent_def clearError_def)

lemma reachable_consistent: "reachable s \<Longrightarrow> consistent s"
proof (induction rule: reachable.induct)
  case r_init
  show ?case by (rule consistent_initial)
next
  case (r_login s sb em password)
  then show ?case by (simp add: consistent_login)
next
  case (r_register s sb uname em password)
  then show ?case by (simp add: consistent_register)
next
  case (r_logout s sb)
  then show ?case by (simp add: consistent_logout)
next
  case (r_clearError s)
  then show ?case by (simp add: consistent_clearError)
qed

subsection \<open>The claims\<close>

text \<open>
  C1, as the specification has it: a logout whose sign-out succeeds ends in the exact
  initial state, whatever the state before, \<open>isLoading\<close> included. This fails: a login
  that resolves with neither an error nor a user leaves \<open>isLoading\<close> true, and the
  logout that follows does not reset it.
\<close>

theorem logout_initial_counterexample:
  "signOut empty_handed = Resolved \<lparr>so_error = None\<rparr>
   \<and> reachable (fst (login empty_handed ''a@b.com'' ''secret'' initial_state))
   \<and> fst (logout empty_handed (fst (login empty_handed ''a@b.com'' ''secret'' initial_state)))
       \<noteq> initial_state"
proof -
  have "reachable (fst (login empty_handed ''a@b.com'' ''secret'' initial_state))"
    by (rule r_login [OF r_init])
  moreover have "isLoading (fst (logout empty_handed
      (fst (login empty_handed ''a@b.com'' ''secret'' initial_state))))"
    by (simp add: logout_def logout_try_def login_def login_try_def empty_handed_def
          initial_state_def)
  moreover have "\<not> isLoading initial_state"
    by (simp add: initial_state_def)
  ultimately show ?thesis
    by (auto simp: empty_handed_def)
qed

text \<open>
  C1, amended: a logout whose sign-out succeeds sets \<open>user\<close> to null, \<open>isAuthenticated\<close>
  to false and \<open>error\<close> to null, and leaves \<open>isLoading\<close> as it was; so it ends in the
  exact initial state exactly when \<open>isLoading\<close> was false before the call.
\<close>

theorem logout_success_resets_session:
  assumes "signOut sb = Resolved r" and "so_error r = None"
  shows "user (fst (logout sb s)) = None
     \<and> isAuthenticated (fst (logout sb s)) = False
     \<and> error (fst (logout sb s)) = None
     \<and> isLoading (fst (logout sb s)) = isLoading s
     \<and> (fst (logout sb s) = initial_state \<longleftrightarrow> \<not> isLoading s)"
proof -
  have eq: "fst (logout sb s) = s\<lparr>user := None, isAuthenticated := False, error := None\<rparr>"
    using assms by (rule logout_on_success)
  have "(s\<lparr>user := None, isAuthenticated := False, error := None\<rparr> = initial_state)
      \<longleftrightarrow> \<not> isLoading s"
    by (cases s) (simp add: initial_state_def)
  with eq show ?thesis by simp
qed

theorem logout_success_resets_session_witness:
  "signOut (accepting ana) = Resolved \<lparr>so_error = None\<rparr>
   \<and> so_error \<lparr>so_error = None\<rparr> = None
   \<and> \<not> isLoading logged_in
   \<and> fst (logout (accepting ana) logged_in) = initial_state"
proof -
  have a: "signOut (accepting ana) = Resolved \<lparr>so_error = None\<rparr>"
    by (simp add: accepting_def)
  have b: "so_error \<lparr>so_error = None\<rparr> = None"
    by simp
  have c: "\<not> isLoading logged_in"
    by (simp add: logged_in_def)
  show ?thesis
    using a b c logout_success_resets_session [OF a b, of logged_in] by simp
qed

text \<open>
  C2: in every state reached from the initial state by completed runs of login,
  register, logout and clearError, \<open>isAuthenticated\<close> equals \<open>user != null\<close>.
\<close>

theorem authenticated_iff_user:
  "reachable s \<Longrightarrow> isAuthenticated s = (user s \<noteq> None)"
  using reachable_consistent [of s] by (simp add: consistent_def)

theorem authenticated_iff_user_witness:
  "reachable (clearError (fst (logout refusing
       (fst (register (accepting ana) ''bob'' ''b@c.com'' ''pw1234'' initial_state)))))
   \<and> isAuthenticated (clearError (fst (logout refusing
       (fst (register (accepting ana) ''bob'' ''b@c.com'' ''pw1234'' initial_state)))))
   \<and> user (clearError (fst (logout refusing
       (fst (register (accepting ana) ''bob'' ''b@c.com'' ''pw1234'' initial_state)))))
      = Some \<lparr>user_id = ''1'', username = ''bob'', email = ''a@b.com'', role = ''user''\<rparr>"
proof -
  have r: "reachable (clearError (fst (logout refusing
       (fst (register (accepting ana) ''bob'' ''b@c.com'' ''pw1234'' initial_state)))))"
    by (rule r_clearError [OF r_logout [OF r_register [OF r_init]]])
  have u: "user (clearError (fst (logout refusing
       (fst (register (accepting ana) ''bob'' ''b@c.com'' ''pw1234'' initial_state)))))
      = Some \<lparr>user_id = ''1'', username = ''bob'', email = ''a@b.com'', role = ''user''\<rparr>"
    by (simp add: clearError_def logout_def logout_try_def register_def register_try_def
          refusing_def accepting_def ana_def initial_state_def)
  show ?thesis
    using r u authenticated_iff_user [OF r] by simp
qed

text \<open>
  C3: whenever the sign-in call fails (the promise rejects, or it resolves with an
  error, whatever the error is), login ends with \<open>user\<close> null, \<open>isAuthenticated\<close> and
  \<open>isLoading\<close> false, and \<open>error\<close> set to one fixed, non-empty message, in which
  nothing of the failure appears.
\<close>

theorem login_failure_generic_message:
  assumes "signInWithPassword sb em password = Rejected e
     \<or> (signInWithPassword sb em password = Resolved r \<and> resp_error r = Some e)"
  shows "fst (login sb em password s) =
       \<lparr>user = None, isAuthenticated = False, isLoading = False, error = Some LOGIN_ERROR\<rparr>
     \<and> LOGIN_ERROR \<noteq> []"
  using login_on_throw [OF assms] by (simp add: LOGIN_ERROR_def)

theorem login_failure_generic_message_witness:
  "signInWithPassword refusing ''wrong@email.com'' ''wrongpass''
     = Resolved \<lparr>data_user = None, resp_error = Some (JsError ''Invalid login credentials'')\<rparr>
   \<and> fst (login refusing ''wrong@email.com'' ''wrongpass'' logged_in) =
       \<lparr>user = None, isAuthenticated = False, isLoading = False, error = Some LOGIN_ERROR\<rparr>
   \<and> LOGIN_ERROR \<noteq> []"
proof -
  have a: "signInWithPassword refusing ''wrong@email.com'' ''wrongpass''
     = Resolved \<lparr>data_user = None, resp_error = Some (JsError ''Invalid login credentials'')\<rparr>"
    by (simp add: refusing_def)
  then have b: "signInWithPassword refusing ''wrong@email.com'' ''wrongpass''
       = Rejected (JsError ''Invalid login credentials'')
     \<or> (signInWithPassword refusing ''wrong@email.com'' ''wrongpass''
          = Resolved \<lparr>data_user = None,
                       resp_error = Some (JsError ''Invalid login credentials'')\<rparr>
        \<and> resp_error \<lparr>data_user = None,
                       resp_error = Some (JsError ''Invalid login credentials'')\<rparr>
          = Some (JsError ''Invalid login credentials''))"
    by simp
  show ?thesis
    using a login_failure_generic_message [OF b, of logged_in] by simp
qed

text \<open>
  C4: when the query for an account with the given email returns a row, register never
  calls \<open>signUp\<close> (the query is the only call it makes) and ends with \<open>user\<close> null,
  \<open>isAuthenticated\<close> and \<open>isLoading\<close> false, and \<open>error\<close> the duplicate-account message.
\<close>

theorem register_existing_account:
  assumes "users_single sb em = Resolved q" and "q_data q = Some row"
  shows "fst (register sb uname em password s) =
       \<lparr>user = None, isAuthenticated = False, isLoading = False,
          error = Some DUPLICATE_ERROR\<rparr>
     \<and> snd (register sb uname em password s) = [UsersSingle em]
     \<and> \<not> list_ex is_SignUp (snd (register sb uname em password s))"
  using register_on_existing [OF assms, of uname password s] by simp

theorem register_existing_account_witness:
  "users_single refusing ''b@c.com'' = Resolved \<lparr>q_data = Some ''b@c.com'', q_error = None\<rparr>
   \<and> fst (register refusing ''bob'' ''b@c.com'' ''pw1234'' initial_state) =
       \<lparr>user = None, isAuthenticated = False, isLoading = False,
          error = Some DUPLICATE_ERROR\<rparr>
   \<and> snd (register refusing ''bob'' ''b@c.com'' ''pw1234'' initial_state)
       = [UsersSingle ''b@c.com'']
   \<and> \<not> list_ex is_SignUp (snd (register refusing ''bob'' ''b@c.com'' ''pw1234'' initial_state))"
proof -
  have a: "users_single refusing ''b@c.com''
      = Resolved \<lparr>q_data = Some ''b@c.com'', q_error = None\<rparr>"
    by (simp add: refusing_def)
  have b: "q_data \<lparr>q_data = Some ''b@c.com'', q_error = None\<rparr> = Some ''b@c.com''"
    by simp
  show ?thesis
    using a register_existing_account [OF a b, of "''bob''" "''pw1234''" initial_state]
    by simp
qed

text \<open>
  C5: whenever the sign-out call fails (the promise rejects, or it resolves with an
  error), logout leaves \<open>user\<close> and \<open>isAuthenticated\<close> (and \<open>isLoading\<close>) as they
  were and changes only \<open>error\<close>, which becomes the message of the failure.
\<close>

theorem logout_failure_keeps_session:
  assumes "signOut sb = Rejected e \<or> (signOut sb = Resolved r \<and> so_error r = Some e)"
  shows "fst (logout sb s) = s\<lparr>error := Some (message e)\<rparr>
     \<and> user (fst (logout sb s)) = user s
     \<and> isAuthenticated (fst (logout sb s)) = isAuthenticated s
     \<and> isLoading (fst (logout sb s)) = isLoading s
     \<and> error (fst (logout sb s)) = Some (message e)"
  using logout_on_throw [OF assms, of s] by simp

theorem logout_failure_keeps_session_witness:
  "signOut refusing = Resolved \<lparr>so_error = Some (JsError ''Failed to fetch'')\<rparr>
   \<and> fst (logout refusing logged_in) =
       \<lparr>user = Some \<lparr>user_id = ''1'', username = ''ana'', email = ''a@b.com'',
                      role = ''user''\<rparr>,
        isAuthenticated = True, isLoading = False, error = Some ''Failed to fetch''\<rparr>"
proof -
  have a: "signOut refusing = Resolved \<lparr>so_error = Some (JsError ''Failed to fetch'')\<rparr>"
    by (simp add: refusing_def)
  then have b: "signOut refusing = Rejected (JsError ''Failed to fetch'')
     \<or> (signOut refusing = Resolved \<lparr>so_error = Some (JsError ''Failed to fetch'')\<rparr>
        \<and> so_error \<lparr>so_error = Some (JsError ''Failed to fetch'')\<rparr>
          = Some (JsError ''Failed to fetch''))"
    by simp
  show ?thesis
    using a logout_failure_keeps_session [OF b, of logged_in] by (simp add: logged_in_def)
qed

text \<open>
  C6, as the specification has it: after a login whose sign-in call resolves with a
  user record, the \<open>username\<close> of \<open>user\<close> is the username of the record's metadata.
  This fails when that username is the empty string: \<open>||\<close> takes the empty string for
  absent, and the email is stored.
\<close>

theorem login_empty_username_counterexample:
  "signInWithPassword (accepting blank_name) ''e@f.com'' ''secret''
     = Resolved \<lparr>data_user = Some blank_name, resp_error = None\<rparr>
   \<and> md_username (user_metadata blank_name) = Some []
   \<and> map_option username
        (user (fst (login (accepting blank_name) ''e@f.com'' ''secret'' initial_state)))
       = Some ''e@f.com''
   \<and> map_option username
        (user (fst (login (accepting blank_name) ''e@f.com'' ''secret'' initial_state)))
       \<noteq> md_username (user_metadata blank_name)"
  by (simp add: login_def login_try_def accepting_def blank_name_def initial_state_def)

text \<open>
  C6, amended: when the sign-in call resolves without an error and with a user record,
  login ends with \<open>isAuthenticated\<close> true, \<open>isLoading\<close> false, \<open>error\<close> null, and
  \<open>user\<close> with the record's id and email; its \<open>username\<close> is the metadata's username
  when that is present and not empty, and the record's email when it is absent or
  empty; its \<open>role\<close> is the metadata's role when that is present and not empty, and
  \<open>'user'\<close> when it is absent or empty.
\<close>

theorem login_success_populates_user:
  assumes "signInWithPassword sb em password = Resolved r"
    and "resp_error r = None" and "data_user r = Some u"
  shows "isAuthenticated (fst (login sb em password s)) = True
     \<and> isLoading (fst (login sb em password s)) = False
     \<and> error (fst (login sb em password s)) = None
     \<and> (\<exists>usr. user (fst (login sb em password s)) = Some usr
          \<and> user_id usr = sb_id u
          \<and> email usr = sb_email u
          \<and> (\<forall>n. md_username (user_metadata u) = Some n \<and> n \<noteq> [] \<longrightarrow> username usr = n)
          \<and> (md_username (user_metadata u) = None \<or> md_username (user_metadata u) = Some []
                \<longrightarrow> username usr = sb_email u)
          \<and> (\<forall>ro. md_role (user_metadata u) = Some ro \<and> ro \<noteq> [] \<longrightarrow> role usr = ro)
          \<and> (md_role (user_metadata u) = None \<or> md_role (user_metadata u) = Some []
                \<longrightarrow> role usr = ''user''))"
  using login_on_user [OF assms, of s] by auto

theorem login_success_populates_user_witness:
  "signInWithPassword (accepting ana) ''a@b.com'' ''secret''
     = Resolved \<lparr>data_user = Some ana, resp_error = None\<rparr>
   \<and> md_username (user_metadata ana) = Some ''ana''
   \<and> md_role (user_metadata ana) = None
   \<and> fst (login (accepting ana) ''a@b.com'' ''secret'' initial_state) =
       \<lparr>user = Some \<lparr>user_id = ''1'', username = ''ana'', email = ''a@b.com'',
                      role = ''user''\<rparr>,
        isAuthenticated = True, isLoading = False, error = None\<rparr>"
proof -
  let ?s = "fst (login (accepting ana) ''a@b.com'' ''secret'' initial_state)"
  have a: "signInWithPassword (accepting ana) ''a@b.com'' ''secret''
     = Resolved \<lparr>data_user = Some ana, resp_error = None\<rparr>"
    by (simp add: accepting_def)
  have b: "resp_error \<lparr>data_user = Some ana, resp_error = None\<rparr> = None"
    by simp
  have c: "data_user \<lparr>data_user = Some ana, resp_error = None\<rparr> = Some ana"
    by simp
  have m: "md_username (user_metadata ana) = Some ''ana''" "md_role (user_metadata ana) = None"
    "sb_id ana = ''1''" "sb_email ana = ''a@b.com''"
    by (simp_all add: ana_def)
  from login_success_populates_user [OF a b c, of initial_state]
  obtain usr where f: "isAuthenticated ?s" "\<not> isLoading ?s" "error ?s = None"
    and g: "user ?s = Some usr" "user_id usr = ''1''" "email usr = ''a@b.com''"
      "username usr = ''ana''" "role usr = ''user''"
    using m by auto
  have "usr = \<lparr>user_id = ''1'', username = ''ana'', email = ''a@b.com'', role = ''user''\<rparr>"
    using g by (cases usr) simp
  with f g(1) have "?s = \<lparr>user = Some \<lparr>user_id = ''1'', username = ''ana'',
        email = ''a@b.com'', role = ''user''\<rparr>,
      isAuthenticated = True, isLoading = False, error = None\<rparr>"
    by (cases ?s) simp
  with a m show ?thesis by simp
qed

text \<open>
  C7: when the query finds no account and the sign-up call resolves without an error
  and with a user record, register ends with \<open>isAuthenticated\<close> true, \<open>isLoading\<close>
  false, \<open>error\<close> null, and \<open>user\<close> with the \<open>username\<close> given as argument (whatever the
  returned record's metadata says) and the role \<open>'user'\<close>; the sign-up call carried
  that username and role.
\<close>

theorem register_success_local_username:
  assumes "users_single sb em = Resolved q" and "q_data q = None"
    and "signUp sb em password uname ''user'' = Resolved r"
    and "resp_error r = None" and "data_user r = Some u"
  shows "fst (register sb uname em password s) =
       \<lparr>user = Some \<lparr>user_id = sb_id u, username = uname, email = sb_email u,
                      role = ''user''\<rparr>,
        isAuthenticated = True, isLoading = False, error = None\<rparr>
     \<and> snd (register sb uname em password s)
         = [UsersSingle em, SignUp em password uname ''user'']"
  using register_on_user [OF assms, of s] by simp

theorem register_success_local_username_witness:
  "users_single (accepting ana) ''b@c.com''
     = Resolved \<lparr>q_data = None, q_error = Some (JsError ''PGRST116'')\<rparr>
   \<and> signUp (accepting ana) ''b@c.com'' ''pw1234'' ''bob'' ''user''
     = Resolved \<lparr>data_user = Some ana, resp_error = None\<rparr>
   \<and> md_username (user_metadata ana) = Some ''ana''
   \<and> fst (register (accepting ana) ''bob'' ''b@c.com'' ''pw1234'' initial_state) =
       \<lparr>user = Some \<lparr>user_id = ''1'', username = ''bob'', email = ''a@b.com'',
                      role = ''user''\<rparr>,
        isAuthenticated = True, isLoading = False, error = None\<rparr>"
proof -
  have a: "users_single (accepting ana) ''b@c.com''
     = Resolved \<lparr>q_data = None, q_error = Some (JsError ''PGRST116'')\<rparr>"
    by (simp add: accepting_def)
  have b: "q_data \<lparr>q_data = None, q_error = Some (JsError ''PGRST116'')\<rparr> = None"
    by simp
  have c: "signUp (accepting ana) ''b@c.com'' ''pw1234'' ''bob'' ''user''
     = Resolved \<lparr>data_user = Some ana, resp_error = None\<rparr>"
    by (simp add: accepting_def)
  have d: "resp_error \<lparr>data_user = Some ana, resp_error = None\<rparr> = None"
    by simp
  have e: "data_user \<lparr>data_user = Some ana, resp_error = None\<rparr> = Some ana"
    by simp
  have m: "md_username (user_metadata ana) = Some ''ana''" "sb_id ana = ''1''"
    "sb_email ana = ''a@b.com''"
    by (simp_all add: ana_def)
  show ?thesis
    using a c m register_success_local_username [OF a b c d e, of initial_state] by simp
qed

text \<open>
  C8: clearError sets \<open>error\<close> to null, leaves \<open>user\<close>, \<open>isAuthenticated\<close> and
  \<open>isLoading\<close> as they were, and applying it twice gives the same state as applying it
  once.
\<close>

theorem clearError_only_error:
  "error (clearError s) = None
   \<and> user (clearError s) = user s
   \<and> isAuthenticated (clearError s) = isAuthenticated s
   \<and> isLoading (clearError s) = isLoading s
   \<and> clearError (clearError s) = clearError s"
  by (simp add: clearError_def)

text \<open>
  C9: when the sign-in call resolves with neither an error nor a user record, login
  ends with \<open>isLoading\<close> still true and \<open>error\<close> null, and with \<open>user\<close> and
  \<open>isAuthenticated\<close> as they were before the call.
\<close>

theorem login_null_user_stays_loading:
  assumes "signInWithPassword sb em password = Resolved r"
    and "resp_error r = None" and "data_user r = None"
  shows "isLoading (fst (login sb em password s)) = True
     \<and> error (fst (login sb em password s)) = None
     \<and> user (fst (login sb em password s)) = user s
     \<and> isAuthenticated (fst (login sb em password s)) = isAuthenticated s"
  using login_on_null [OF assms, of s] by simp

theorem login_null_user_stays_loading_witness:
  "signInWithPassword empty_handed ''a@b.com'' ''secret''
     = Resolved \<lparr>data_user = None, resp_error = None\<rparr>
   \<and> fst (login empty_handed ''a@b.com'' ''secret'' logged_in) =
       \<lparr>user = Some \<lparr>user_id = ''1'', username = ''ana'', email = ''a@b.com'',
                      role = ''user''\<rparr>,
        isAuthenticated = True, isLoading = True, error = None\<rparr>"
proof -
  let ?s = "fst (login empty_handed ''a@b.com'' ''secret'' logged_in)"
  have a: "signInWithPassword empty_handed ''a@b.com'' ''secret''
     = Resolved \<lparr>data_user = None, resp_error = None\<rparr>"
    by (simp add: empty_handed_def)
  have b: "resp_error \<lparr>data_user = None, resp_error = None\<rparr> = None"
    by simp
  have c: "data_user \<lparr>data_user = None, resp_error = None\<rparr> = None"
    by simp
  have "isLoading ?s = True \<and> error ?s = None \<and> user ?s = user logged_in
      \<and> isAuthenticated ?s = isAuthenticated logged_in"
    by (rule login_null_user_stays_loading [OF a b c])
  then have "?s = \<lparr>user = Some \<lparr>user_id = ''1'', username = ''ana'', email = ''a@b.com'',
        role = ''user''\<rparr>,
      isAuthenticated = True, isLoading = True, error = None\<rparr>"
    by (cases ?s) (simp add: logged_in_def)
  with a show ?thesis by simp
qed

text \<open>
  C10: after a successful login whose user record has no username in its metadata,
  the \<open>username\<close> of \<open>user\<close> is the record's email.
\<close>

theorem login_username_defaults_to_email:
  assumes "signInWithPassword sb em password = Resolved r"
    and "resp_error r = None" and "data_user r = Some u"
    and "md_username (user_metadata u) = None"
  shows "map_option username (user (fst (login sb em password s))) = Some (sb_email u)"
  using login_on_user [OF assms(1-3), of s] assms(4) by simp

theorem login_username_defaults_to_email_witness:
  "signInWithPassword (accepting no_name) ''c@d.com'' ''secret''
     = Resolved \<lparr>data_user = Some no_name, resp_error = None\<rparr>
   \<and> md_username (user_metadata no_name) = None
   \<and> map_option username (user (fst (login (accepting no_name) ''c@d.com'' ''secret''
        initial_state))) = Some ''c@d.com''"
proof -
  have a: "signInWithPassword (accepting no_name) ''c@d.com'' ''secret''
     = Resolved \<lparr>data_user = Some no_name, resp_error = None\<rparr>"
    by (simp add: accepting_def)
  have b: "resp_error \<lparr>data_user = Some no_name, resp_error = None\<rparr> = None"
    by simp
  have c: "data_user \<lparr>data_user = Some no_name, resp_error = None\<rparr> = Some no_name"
    by simp
  have d: "md_username (user_metadata no_name) = None"
    by (simp add: no_name_def)
  have e: "sb_email no_name = ''c@d.com''"
    by (simp add: no_name_def)
  show ?thesis
    using a d e login_username_defaults_to_email [OF a b c d, of initial_state] by simp
qed

end
